theory Spec2Isabelle
  imports Complex_Main
begin

section \<open>Animal bleeding component\<close>

text \<open>
  A shallow embedding of the class \<^verbatim>\<open>ComponentAnimalBleeding\<close>
  (\<^verbatim>\<open>3_game/tools/component/componentanimalbleeding.c\<close>).

  Script values of type \<^verbatim>\<open>float\<close> are modelled as \<^typ>\<open>real\<close>: products and
  comparisons are the mathematical ones, rounding and non-finite values are not modelled.
  A script \<^verbatim>\<open>string\<close> is a \<^typ>\<open>string\<close>; a string used as a condition
  (\<^verbatim>\<open>!zone_name\<close>) is false exactly when it is empty.
\<close>

subsection \<open>Collaborators of the component\<close>

text \<open>
  The creature is reached through the member \<^verbatim>\<open>m_ThisEntityAI\<close>. Its class is native
  to the engine, so the five methods the component calls are taken as parameters: a record
  of operations on a creature state of an arbitrary type \<open>'e\<close>. Every theorem stated
  for an arbitrary record \<open>ops\<close> holds for whatever the engine does in these methods.
\<close>

record 'e EntityAI =
  SetHealth :: "string \<Rightarrow> string \<Rightarrow> real \<Rightarrow> 'e \<Rightarrow> 'e"
  DecreaseHealth :: "string \<Rightarrow> string \<Rightarrow> real \<Rightarrow> 'e \<Rightarrow> 'e"
  GetHealth :: "string \<Rightarrow> string \<Rightarrow> 'e \<Rightarrow> real"
  IsAlive :: "'e \<Rightarrow> bool"
  GetType :: "'e \<Rightarrow> string"

text \<open>
  \<^verbatim>\<open>TotalDamageResult\<close>: a read-only report, queried by zone name and resource name.
\<close>

type_synonym TotalDamageResult = "string \<Rightarrow> string \<Rightarrow> real"

definition GetDamage :: "TotalDamageResult \<Rightarrow> string \<Rightarrow> string \<Rightarrow> real" where
  "GetDamage damage_result zone_name health_type = damage_result zone_name health_type"

text \<open>
  \<^verbatim>\<open>GetGame().ConfigGetFloat(path)\<close>: the configuration is a read-only lookup from
  a path to a number.
\<close>

record Game =
  ConfigGetFloat :: "string \<Rightarrow> real"

text \<open>
  Modelled from the spec: the timer facility (section 6, "repeating-callback registration
  with one bound float parameter", with \<^verbatim>\<open>Stop()\<close>); the class \<^verbatim>\<open>Timer\<close> is not
  part of the component's file. A timer object records whether it is running, its
  interval, the name of the method it calls, the bound parameter and whether it repeats.
  Timer objects live in a store, a list addressed by position; \<^verbatim>\<open>new Timer()\<close>
  allocates the next position, and a reference is a position or null.
\<close>

record Timer =
  TimerRunning :: bool
  TimerDuration :: real
  TimerFunction :: string
  TimerParam :: real
  TimerLoop :: bool

definition Timer_new :: "Timer list \<Rightarrow> nat \<times> Timer list" where
  "Timer_new store =
     (length store,
      store @ [\<lparr>TimerRunning = False, TimerDuration = 0, TimerFunction = [],
                TimerParam = 0, TimerLoop = False\<rparr>])"

definition Timer_Run :: "nat \<Rightarrow> real \<Rightarrow> string \<Rightarrow> real \<Rightarrow> bool \<Rightarrow> Timer list \<Rightarrow> Timer list" where
  "Timer_Run t duration fn_name param loop store =
     store[t := \<lparr>TimerRunning = True, TimerDuration = duration, TimerFunction = fn_name,
                 TimerParam = param, TimerLoop = loop\<rparr>]"

definition Timer_Stop :: "nat \<Rightarrow> Timer list \<Rightarrow> Timer list" where
  "Timer_Stop t store = store[t := (store ! t)\<lparr>TimerRunning := False\<rparr>]"

subsection \<open>The component\<close>

text \<open>
  The state the methods act on: the creature behind \<^verbatim>\<open>m_ThisEntityAI\<close>, the member
  \<^verbatim>\<open>m_BleedTimer\<close> (a reference, null at construction) and the store of timer objects.
\<close>

record 'e state =
  m_ThisEntityAI :: 'e
  m_BleedTimer :: "nat option"
  timers :: "Timer list"

datatype error = NullPointer

definition BASE_BLEED_RATE :: real where
  "BASE_BLEED_RATE = 250"

definition PASS_OUT_AMOUT :: real where
  "PASS_OUT_AMOUT = 500"

definition GetWoundIntensity :: "real \<Rightarrow> real" where
  "GetWoundIntensity bleed_treshold = bleed_treshold * 2"

definition InflictWoundDamage ::
  "'e EntityAI \<Rightarrow> TotalDamageResult \<Rightarrow> string \<Rightarrow> string \<Rightarrow> 'e state \<Rightarrow> 'e state" where
  "InflictWoundDamage ops damage_result zone_name ammo s =
     (let s1 = (if ammo = ''MeleeWolf''
                then s\<lparr>m_ThisEntityAI := SetHealth ops '''' '''' 0 (m_ThisEntityAI s)\<rparr>
                else s)
      in if zone_name = '''' then s1
         else
           let health_damage_inflicted = GetDamage damage_result zone_name ''Health'';
               wound_healt_damage = health_damage_inflicted;
               s2 = s1\<lparr>m_ThisEntityAI :=
                         DecreaseHealth ops '''' ''Health'' wound_healt_damage (m_ThisEntityAI s1)\<rparr>
           in if zone_name \<noteq> ''''
              then s2\<lparr>m_ThisEntityAI :=
                        DecreaseHealth ops zone_name ''Health'' wound_healt_damage (m_ThisEntityAI s2)\<rparr>
              else s2)"

definition CreateWound ::
  "'e EntityAI \<Rightarrow> Game \<Rightarrow> real \<Rightarrow> TotalDamageResult \<Rightarrow> string \<Rightarrow> string \<Rightarrow> 'e state \<Rightarrow> 'e state" where
  "CreateWound ops game RandomFloat01 damage_result zone_name ammo s =
     (let s1 = InflictWoundDamage ops damage_result zone_name ammo s;
          can_bleed = (ConfigGetFloat game
                         (''CfgVehicles '' @ GetType ops (m_ThisEntityAI s1) @ '' DamageSystem ''
                            @ ''DamageZones '' @ zone_name @ '' canBleed'') > 0);
          bleed_threshold = ConfigGetFloat game
                              (''CfgAmmo '' @ ammo @ '' DamageApplied '' @ ''bleedThreshold'');
          chance = RandomFloat01
      in if can_bleed \<and> chance \<le> bleed_threshold
         then
           let (t, store) = Timer_new (timers s1);
               s2 = s1\<lparr>m_BleedTimer := Some t, timers := store\<rparr>;
               wound_intensity = GetWoundIntensity bleed_threshold
           in s2\<lparr>timers := Timer_Run t 1 ''Bleed'' wound_intensity True (timers s2)\<rparr>
         else s1)"

definition Bleed :: "'e EntityAI \<Rightarrow> real \<Rightarrow> 'e state \<Rightarrow> error + 'e state" where
  "Bleed ops wound_intensity s =
     (if IsAlive ops (m_ThisEntityAI s)
      then
        let bleeding_intensity = BASE_BLEED_RATE * wound_intensity;
            global_blood_lvl = GetHealth ops '''' ''Blood'' (m_ThisEntityAI s);
            s1 = s\<lparr>m_ThisEntityAI :=
                     DecreaseHealth ops '''' ''Blood'' bleeding_intensity (m_ThisEntityAI s)\<rparr>
        in if global_blood_lvl < PASS_OUT_AMOUT
           then Inr (s1\<lparr>m_ThisEntityAI := SetHealth ops '''' '''' 0 (m_ThisEntityAI s1)\<rparr>)
           else Inr s1
      else
        (case m_BleedTimer s of
           None \<Rightarrow> Inl NullPointer
         | Some t \<Rightarrow> Inr (s\<lparr>timers := Timer_Stop t (timers s)\<rparr>)))"

subsection \<open>The scheduler\<close>

text \<open>
  Modelled from the spec: the scheduler that drives a timer (sections 4.2 and 5: a running
  timer invokes the registered method once per interval with its bound parameter, ticks
  are serialized, a timer that does not repeat fires once); the scheduler is not part of
  the component's file. \<open>Tick ops t\<close> is one expiry of the timer at position \<open>t\<close>:
  nothing happens unless that timer is running. The only method the component registers
  is \<^verbatim>\<open>Bleed\<close>.
\<close>

definition Tick :: "'e EntityAI \<Rightarrow> nat \<Rightarrow> 'e state \<Rightarrow> error + 'e state" where
  "Tick ops t s =
     (if t < length (timers s) \<and> TimerRunning (timers s ! t)
      then
        let tm = timers s ! t;
            s1 = (if TimerLoop tm then s else s\<lparr>timers := Timer_Stop t (timers s)\<rparr>)
        in Bleed ops (TimerParam tm) s1
      else Inr s)"

text \<open>
  What can happen to a component: a wound is created (with the value the random source
  returns for it), damage is inflicted directly, or a timer expires. A script error ends
  the run.
\<close>

datatype event =
  EvCreateWound real TotalDamageResult string string
| EvInflictWoundDamage TotalDamageResult string string
| EvTick nat


fun step :: "'e EntityAI \<Rightarrow> Game \<Rightarrow> event \<Rightarrow> 'e state \<Rightarrow> error + 'e state" where
  "step ops game (EvCreateWound chance damage_result zone_name ammo) s =
     Inr (CreateWound ops game chance damage_result zone_name ammo s)"
| "step ops game (EvInflictWoundDamage damage_result zone_name ammo) s =
     Inr (InflictWoundDamage ops damage_result zone_name ammo s)"
| "step ops game (EvTick t) s = Tick ops t s"

fun run :: "'e EntityAI \<Rightarrow> Game \<Rightarrow> event list \<Rightarrow> 'e state \<Rightarrow> error + 'e state" where
  "run ops game [] s = Inr s"
| "run ops game (ev # evs) s =
     (case step ops game ev s of Inl e \<Rightarrow> Inl e | Inr s' \<Rightarrow> run ops game evs s')"

subsection \<open>A creature for concrete runs\<close>

text \<open>
  Modelled from the spec: the creature's health model (sections 3 and 6); the entity class
  is not part of the component's file. A creature has a level for every pair of a zone
  and a resource, the empty zone being the global pool and the empty resource name
  standing for \<^verbatim>\<open>Health\<close> ("global health is set to zero"); decreasing subtracts
  (section 8: blood 600, then 350, then 100); the creature is alive while its global
  health is above zero. The creature also records the mutating calls it receives, in
  order. This instance is used for concrete inputs only.
\<close>

datatype call =
  CallSetHealth string string real
| CallDecreaseHealth string string real

record Creature =
  creature_type :: string
  level :: "string \<times> string \<Rightarrow> real"
  calls :: "call list"

definition health_type :: "string \<Rightarrow> string" where
  "health_type r = (if r = '''' then ''Health'' else r)"

definition creature_ops :: "Creature EntityAI" where
  "creature_ops =
     \<lparr>SetHealth = (\<lambda>z r v c.
        c\<lparr>level := (level c)((z, health_type r) := v),
          calls := calls c @ [CallSetHealth z r v]\<rparr>),
      DecreaseHealth = (\<lambda>z r v c.
        c\<lparr>level := (level c)((z, health_type r) := level c (z, health_type r) - v),
          calls := calls c @ [CallDecreaseHealth z r v]\<rparr>),
      GetHealth = (\<lambda>z r c. level c (z, health_type r)),
      IsAlive = (\<lambda>c. 0 < level c ('''', ''Health'')),
      GetType = creature_type\<rparr>"

text \<open>
  The creature of the spec's scenario (blood 600, health 100), a report of 10 points of
  health damage to the head, and a configuration in which the head of this creature can
  bleed and the ammo \<^verbatim>\<open>Arrow\<close> has the bleed threshold one half (every other path
  reads 0).
\<close>

definition deer :: Creature where
  "deer = \<lparr>creature_type = ''Deer'',
           level = (\<lambda>(z, r). if r = ''Blood'' then 600 else 100),
           calls = []\<rparr>"

definition fresh :: "Creature state" where
  "fresh = \<lparr>m_ThisEntityAI = deer, m_BleedTimer = None, timers = []\<rparr>"

definition head_hit :: TotalDamageResult where
  "head_hit = (\<lambda>z r. if z = ''Head'' \<and> r = ''Health'' then 10 else 0)"

definition config :: Game where
  "config =
     \<lparr>ConfigGetFloat = (\<lambda>path.
        if path = ''CfgVehicles Deer DamageSystem DamageZones Head canBleed'' then 1
        else if path = ''CfgAmmo Arrow DamageApplied bleedThreshold'' then 1 / 2
        else 0)\<rparr>"

text \<open>
  The states of the spec's scenario: the creature after a wound that started a bleed
  (threshold one half, so intensity 1), after the first tick (blood 350), after the second
  tick (health 0, blood 100), and after the third tick (timer stopped).
\<close>

definition bleeding :: "Creature state" where
  "bleeding = CreateWound creature_ops config (3 / 10) head_hit ''Head'' ''Arrow'' fresh"

definition bled_once :: "Creature state" where
  "bled_once =
     bleeding\<lparr>m_ThisEntityAI :=
       DecreaseHealth creature_ops '''' ''Blood'' 250 (m_ThisEntityAI bleeding)\<rparr>"

definition dying :: "Creature state" where
  "dying =
     bled_once\<lparr>m_ThisEntityAI :=
       SetHealth creature_ops '''' '''' 0
         (DecreaseHealth creature_ops '''' ''Blood'' 250 (m_ThisEntityAI bled_once))\<rparr>"

definition stopped :: "Creature state" where
  "stopped = dying\<lparr>timers := Timer_Stop 0 (timers dying)\<rparr>"




subsection \<open>Reading the model\<close>

text \<open>
  The two configuration reads of \<^verbatim>\<open>CreateWound\<close>, by the paths it builds: the
  \<^verbatim>\<open>canBleed\<close> flag of a zone of the creature's type, and the \<^verbatim>\<open>bleedThreshold\<close>
  of an ammo.
\<close>

definition can_bleed_flag :: "'e EntityAI \<Rightarrow> Game \<Rightarrow> 'e \<Rightarrow> string \<Rightarrow> bool" where
  "can_bleed_flag ops game e zone_name \<longleftrightarrow>
     0 < ConfigGetFloat game
           (''CfgVehicles '' @ GetType ops e @ '' DamageSystem '' @ ''DamageZones ''
              @ zone_name @ '' canBleed'')"

definition bleed_threshold_of :: "Game \<Rightarrow> string \<Rightarrow> real" where
  "bleed_threshold_of game ammo =
     ConfigGetFloat game (''CfgAmmo '' @ ammo @ '' DamageApplied '' @ ''bleedThreshold'')"

text \<open>
  The timer a successful roll installs, and what it means that a bleed started between
  two states: among the timers allocated since the first one, some timer is running,
  repeats and calls \<^verbatim>\<open>Bleed\<close>.
\<close>

definition bleed_timer :: "real \<Rightarrow> Timer" where
  "bleed_timer wound_intensity =
     \<lparr>TimerRunning = True, TimerDuration = 1, TimerFunction = ''Bleed'',
      TimerParam = wound_intensity, TimerLoop = True\<rparr>"

definition bleed_started :: "'e state \<Rightarrow> 'e state \<Rightarrow> bool" where
  "bleed_started s s' \<longleftrightarrow>
     list_ex (\<lambda>tm. TimerRunning tm \<and> TimerLoop tm \<and> TimerFunction tm = ''Bleed'')
       (drop (length (timers s)) (timers s'))"

text \<open>
  How the store can change: timers are only ever added at the end, a timer's bound
  parameter and its repeat flag never change, and no timer that is stopped runs again.
\<close>

definition store_grows :: "Timer list \<Rightarrow> Timer list \<Rightarrow> bool" where
  "store_grows old new \<longleftrightarrow>
     length old \<le> length new
     \<and> (\<forall>i < length old.
           TimerParam (new ! i) = TimerParam (old ! i)
           \<and> TimerLoop (new ! i) = TimerLoop (old ! i)
           \<and> (TimerRunning (new ! i) \<longrightarrow> TimerRunning (old ! i)))"

text \<open>
  The slot refers to the timer allocated last, whenever a timer has been allocated at all.
\<close>

definition slot_ok :: "'e state \<Rightarrow> bool" where
  "slot_ok s \<longleftrightarrow> timers s = [] \<or> m_BleedTimer s = Some (length (timers s) - 1)"

section \<open>Wound intensity\<close>

text \<open>
  Claim C9. \<^verbatim>\<open>GetWoundIntensity\<close> is twice its argument for every input: one half gives
  1, zero gives 0, it is linear (scaling the threshold scales the intensity, and it is
  additive), and the result is not clamped: every threshold above one half gives an
  intensity above 1. The function takes and returns a number only, so it has no effect on
  any state.
\<close>

theorem GetWoundIntensity_doubles:
  "GetWoundIntensity b = b * 2
   \<and> GetWoundIntensity (1 / 2) = 1
   \<and> GetWoundIntensity 0 = 0
   \<and> GetWoundIntensity (k * b) = k * GetWoundIntensity b
   \<and> GetWoundIntensity (a + b) = GetWoundIntensity a + GetWoundIntensity b
   \<and> (1 / 2 < b \<longrightarrow> 1 < GetWoundIntensity b)"
  by (simp add: GetWoundIntensity_def algebra_simps)

theorem GetWoundIntensity_doubles_witness:
  "(1 / 2 < (3 / 4 :: real)) \<and> GetWoundIntensity (3 / 4) = 3 / 2
   \<and> 1 < GetWoundIntensity (3 / 4)"
  using GetWoundIntensity_doubles [of "3 / 4" 1 0] by simp

section \<open>Damage application\<close>

text \<open>
  Claim C1. When \<^verbatim>\<open>zone_name\<close> is not empty and \<^verbatim>\<open>ammo\<close> is not the instant-kill
  class, \<^verbatim>\<open>InflictWoundDamage\<close> decreases the creature's global \<^verbatim>\<open>Health\<close> by the
  magnitude the report gives for the zone's \<^verbatim>\<open>Health\<close>, then decreases the zone's
  \<^verbatim>\<open>Health\<close> by the same magnitude, and changes nothing else.
\<close>

theorem InflictWoundDamage_decreases_health:
  assumes "zone_name \<noteq> ''''" and "ammo \<noteq> ''MeleeWolf''"
  shows "InflictWoundDamage ops damage_result zone_name ammo s =
           s\<lparr>m_ThisEntityAI :=
               DecreaseHealth ops zone_name ''Health'' (GetDamage damage_result zone_name ''Health'')
                 (DecreaseHealth ops '''' ''Health'' (GetDamage damage_result zone_name ''Health'')
                    (m_ThisEntityAI s))\<rparr>"
  using assms by (simp add: InflictWoundDamage_def Let_def)

theorem InflictWoundDamage_decreases_health_witness:
  "''Head'' \<noteq> '''' \<and> ''Arrow'' \<noteq> ''MeleeWolf''
   \<and> calls (m_ThisEntityAI (InflictWoundDamage creature_ops head_hit ''Head'' ''Arrow'' fresh)) =
       [CallDecreaseHealth '''' ''Health'' 10, CallDecreaseHealth ''Head'' ''Health'' 10]
   \<and> level (m_ThisEntityAI (InflictWoundDamage creature_ops head_hit ''Head'' ''Arrow'' fresh))
       ('''', ''Health'') = 90
   \<and> level (m_ThisEntityAI (InflictWoundDamage creature_ops head_hit ''Head'' ''Arrow'' fresh))
       (''Head'', ''Health'') = 90"
  using InflictWoundDamage_decreases_health [of "''Head''" "''Arrow''" creature_ops head_hit fresh]
  by (simp add: creature_ops_def health_type_def fresh_def deer_def head_hit_def GetDamage_def)

text \<open>
  Claim C2, as stated: with the instant-kill ammo the only effect is the one call that
  sets health to zero. It fails for a hit on a named zone: the two decreases follow.
\<close>

theorem InflictWoundDamage_MeleeWolf_counterexample:
  "calls (m_ThisEntityAI (InflictWoundDamage creature_ops head_hit ''Head'' ''MeleeWolf'' fresh)) =
     [CallSetHealth '''' '''' 0,
      CallDecreaseHealth '''' ''Health'' 10,
      CallDecreaseHealth ''Head'' ''Health'' 10]
   \<and> calls (m_ThisEntityAI (InflictWoundDamage creature_ops head_hit ''Head'' ''MeleeWolf'' fresh)) \<noteq>
       [CallSetHealth '''' '''' 0]"
  by (simp add: InflictWoundDamage_def Let_def creature_ops_def health_type_def fresh_def deer_def
      head_hit_def GetDamage_def)

text \<open>
  Claim C2, amended. With the instant-kill ammo, setting the global health to zero is the
  first effect. With an empty \<^verbatim>\<open>zone_name\<close> it is the only effect; with a named zone the
  two decreases of claim C1 follow it.
\<close>

theorem InflictWoundDamage_MeleeWolf:
  "InflictWoundDamage ops damage_result zone_name ''MeleeWolf'' s =
     (if zone_name = ''''
      then s\<lparr>m_ThisEntityAI := SetHealth ops '''' '''' 0 (m_ThisEntityAI s)\<rparr>
      else s\<lparr>m_ThisEntityAI :=
               DecreaseHealth ops zone_name ''Health'' (GetDamage damage_result zone_name ''Health'')
                 (DecreaseHealth ops '''' ''Health'' (GetDamage damage_result zone_name ''Health'')
                    (SetHealth ops '''' '''' 0 (m_ThisEntityAI s)))\<rparr>)"
  by (simp add: InflictWoundDamage_def Let_def)

theorem InflictWoundDamage_MeleeWolf_witness:
  "calls (m_ThisEntityAI (InflictWoundDamage creature_ops head_hit '''' ''MeleeWolf'' fresh)) =
     [CallSetHealth '''' '''' 0]
   \<and> \<not> IsAlive creature_ops
         (m_ThisEntityAI (InflictWoundDamage creature_ops head_hit ''Head'' ''MeleeWolf'' fresh))"
  using InflictWoundDamage_MeleeWolf [of creature_ops head_hit "''''" fresh]
    InflictWoundDamage_MeleeWolf [of creature_ops head_hit "''Head''" fresh]
  by (simp add: creature_ops_def health_type_def fresh_def deer_def head_hit_def GetDamage_def)

text \<open>
  Claim C3, as stated: with an empty \<^verbatim>\<open>zone_name\<close> nothing is mutated, whatever the
  ammo. It fails for the instant-kill ammo, which is handled before the zone is looked at.
\<close>

theorem InflictWoundDamage_empty_zone_counterexample:
  "calls (m_ThisEntityAI (InflictWoundDamage creature_ops head_hit '''' ''MeleeWolf'' fresh)) =
     [CallSetHealth '''' '''' 0]
   \<and> IsAlive creature_ops (m_ThisEntityAI fresh)
   \<and> \<not> IsAlive creature_ops
         (m_ThisEntityAI (InflictWoundDamage creature_ops head_hit '''' ''MeleeWolf'' fresh))"
  by (simp add: InflictWoundDamage_def Let_def creature_ops_def health_type_def fresh_def deer_def)

text \<open>
  Claim C3, amended. With an empty \<^verbatim>\<open>zone_name\<close> no damage from the report is applied:
  for any ammo other than the instant-kill class the call changes nothing, and for the
  instant-kill class its one effect is to set the global health to zero.
\<close>

theorem InflictWoundDamage_empty_zone:
  "InflictWoundDamage ops damage_result '''' ammo s =
     (if ammo = ''MeleeWolf''
      then s\<lparr>m_ThisEntityAI := SetHealth ops '''' '''' 0 (m_ThisEntityAI s)\<rparr>
      else s)"
  by (simp add: InflictWoundDamage_def Let_def)

theorem InflictWoundDamage_empty_zone_witness:
  "InflictWoundDamage creature_ops head_hit '''' ''Arrow'' fresh = fresh"
  using InflictWoundDamage_empty_zone [of creature_ops head_hit "''Arrow''" fresh]
  by simp

section \<open>Wound creation\<close>

lemma InflictWoundDamage_frame:
  "timers (InflictWoundDamage ops damage_result zone_name ammo s) = timers s"
  "m_BleedTimer (InflictWoundDamage ops damage_result zone_name ammo s) = m_BleedTimer s"
  by (simp_all add: InflictWoundDamage_def Let_def)

lemma CreateWound_unfold:
  "CreateWound ops game chance damage_result zone_name ammo s =
     (if can_bleed_flag ops game
           (m_ThisEntityAI (InflictWoundDamage ops damage_result zone_name ammo s)) zone_name
         \<and> chance \<le> bleed_threshold_of game ammo
      then (InflictWoundDamage ops damage_result zone_name ammo s)
             \<lparr>m_BleedTimer := Some (length (timers s)),
              timers := timers s @ [bleed_timer (GetWoundIntensity (bleed_threshold_of game ammo))]\<rparr>
      else InflictWoundDamage ops damage_result zone_name ammo s)"
  by (simp add: CreateWound_def Let_def can_bleed_flag_def bleed_threshold_of_def
      Timer_new_def Timer_Run_def bleed_timer_def InflictWoundDamage_frame)

lemma bleed_started_append:
  "timers s' = timers s @ [bleed_timer w] \<Longrightarrow> bleed_started s s'"
  by (simp add: bleed_started_def bleed_timer_def)

lemma not_bleed_started_same: "timers s' = timers s \<Longrightarrow> \<not> bleed_started s s'"
  by (simp add: bleed_started_def)

text \<open>
  Claim C4. In \<^verbatim>\<open>CreateWound\<close> a bleed starts if and only if the zone's
  \<^verbatim>\<open>canBleed\<close> flag is set and the random draw is at most the ammo's
  \<^verbatim>\<open>bleedThreshold\<close>. The result is a function of the draw, and it is built on the
  state \<^verbatim>\<open>InflictWoundDamage\<close> leaves: the damage is applied first and in either case.
\<close>

theorem CreateWound_bleed_iff:
  "(bleed_started (InflictWoundDamage ops damage_result zone_name ammo s)
            (CreateWound ops game chance damage_result zone_name ammo s)
          \<longleftrightarrow> can_bleed_flag ops game (m_ThisEntityAI (InflictWoundDamage ops damage_result zone_name ammo s)) zone_name
               \<and> chance \<le> bleed_threshold_of game ammo)
         \<and> CreateWound ops game chance damage_result zone_name ammo s =
             (if can_bleed_flag ops game (m_ThisEntityAI (InflictWoundDamage ops damage_result zone_name ammo s)) zone_name
                 \<and> chance \<le> bleed_threshold_of game ammo
              then (InflictWoundDamage ops damage_result zone_name ammo s)
                     \<lparr>m_BleedTimer := Some (length (timers s)),
                      timers := timers s
                        @ [bleed_timer (GetWoundIntensity (bleed_threshold_of game ammo))]\<rparr>
              else InflictWoundDamage ops damage_result zone_name ammo s)
         \<and> m_ThisEntityAI (CreateWound ops game chance damage_result zone_name ammo s) =
             m_ThisEntityAI (InflictWoundDamage ops damage_result zone_name ammo s)"
proof -
  let ?s1 = "InflictWoundDamage ops damage_result zone_name ammo s"
  let ?s' = "CreateWound ops game chance damage_result zone_name ammo s"
  let ?go = "can_bleed_flag ops game (m_ThisEntityAI ?s1) zone_name
             \<and> chance \<le> bleed_threshold_of game ammo"
  have started: "bleed_started ?s1 ?s' \<longleftrightarrow> ?go"
  proof (cases ?go)
    case True
    then have "timers ?s' =
        timers ?s1 @ [bleed_timer (GetWoundIntensity (bleed_threshold_of game ammo))]"
      by (simp add: CreateWound_unfold InflictWoundDamage_frame)
    then show ?thesis using True by (simp add: bleed_started_append)
  next
    case False
    then have "timers ?s' = timers ?s1"
      by (auto simp add: CreateWound_unfold)
    then show ?thesis using False by (simp add: not_bleed_started_same)
  qed
  have creature: "m_ThisEntityAI ?s' = m_ThisEntityAI ?s1"
    by (simp add: CreateWound_unfold)
  show ?thesis
    using started creature by (simp add: CreateWound_unfold)
qed

theorem CreateWound_bleed_iff_witness:
  "bleed_started (InflictWoundDamage creature_ops head_hit ''Head'' ''Arrow'' fresh)
     (CreateWound creature_ops config (3 / 10) head_hit ''Head'' ''Arrow'' fresh)
   \<and> \<not> bleed_started (InflictWoundDamage creature_ops head_hit ''Head'' ''Arrow'' fresh)
         (CreateWound creature_ops config (7 / 10) head_hit ''Head'' ''Arrow'' fresh)
   \<and> \<not> bleed_started (InflictWoundDamage creature_ops head_hit ''Leg'' ''Arrow'' fresh)
         (CreateWound creature_ops config (3 / 10) head_hit ''Leg'' ''Arrow'' fresh)
   \<and> calls (m_ThisEntityAI (CreateWound creature_ops config (7 / 10) head_hit ''Head'' ''Arrow'' fresh)) =
       [CallDecreaseHealth '''' ''Health'' 10, CallDecreaseHealth ''Head'' ''Health'' 10]"
proof -
  have flags:
    "can_bleed_flag creature_ops config
       (m_ThisEntityAI (InflictWoundDamage creature_ops head_hit ''Head'' ''Arrow'' fresh)) ''Head''"
    "\<not> can_bleed_flag creature_ops config
       (m_ThisEntityAI (InflictWoundDamage creature_ops head_hit ''Leg'' ''Arrow'' fresh)) ''Leg''"
    "bleed_threshold_of config ''Arrow'' = 1 / 2"
    by (simp_all add: can_bleed_flag_def bleed_threshold_of_def config_def InflictWoundDamage_def
        Let_def creature_ops_def fresh_def deer_def)
  have dmg: "calls (m_ThisEntityAI (InflictWoundDamage creature_ops head_hit ''Head'' ''Arrow'' fresh)) =
       [CallDecreaseHealth '''' ''Health'' 10, CallDecreaseHealth ''Head'' ''Health'' 10]"
    by (simp add: InflictWoundDamage_def Let_def creature_ops_def fresh_def deer_def head_hit_def
        GetDamage_def)
  have yes: "bleed_started (InflictWoundDamage creature_ops head_hit ''Head'' ''Arrow'' fresh)
     (CreateWound creature_ops config (3 / 10) head_hit ''Head'' ''Arrow'' fresh)"
    using CreateWound_bleed_iff [of creature_ops head_hit "''Head''" "''Arrow''" fresh config "3 / 10",
        THEN conjunct1] flags(1) by (simp add: flags(3))
  have no: "\<not> bleed_started (InflictWoundDamage creature_ops head_hit ''Head'' ''Arrow'' fresh)
     (CreateWound creature_ops config (7 / 10) head_hit ''Head'' ''Arrow'' fresh)"
    using CreateWound_bleed_iff [of creature_ops head_hit "''Head''" "''Arrow''" fresh config "7 / 10",
        THEN conjunct1] by (simp add: flags(3))
  have same: "m_ThisEntityAI (CreateWound creature_ops config (7 / 10) head_hit ''Head'' ''Arrow'' fresh) =
       m_ThisEntityAI (InflictWoundDamage creature_ops head_hit ''Head'' ''Arrow'' fresh)"
    using CreateWound_bleed_iff [of creature_ops head_hit "''Head''" "''Arrow''" fresh config "7 / 10",
        THEN conjunct2, THEN conjunct2] .
  have leg: "\<not> bleed_started (InflictWoundDamage creature_ops head_hit ''Leg'' ''Arrow'' fresh)
     (CreateWound creature_ops config (3 / 10) head_hit ''Leg'' ''Arrow'' fresh)"
    using CreateWound_bleed_iff [of creature_ops head_hit "''Leg''" "''Arrow''" fresh config "3 / 10",
        THEN conjunct1] flags(2) by simp
  show ?thesis
    using yes no leg same dmg by simp
qed

text \<open>
  Claim C5, as stated: a threshold of 0 rules a bleed out for every draw in the half-open
  interval from 0 to 1. It fails at the draw 0: the comparison is \<open>\<le>\<close>, so on a zone that
  can bleed the draw 0 meets the threshold 0 and a bleed (of intensity 0) starts.
\<close>

theorem CreateWound_threshold_zero_counterexample:
  "bleed_threshold_of config ''Stone'' = 0
   \<and> (0::real) \<le> 0 \<and> (0::real) < 1
   \<and> bleed_started (InflictWoundDamage creature_ops head_hit ''Head'' ''Stone'' fresh)
       (CreateWound creature_ops config 0 head_hit ''Head'' ''Stone'' fresh)
   \<and> timers (CreateWound creature_ops config 0 head_hit ''Head'' ''Stone'' fresh) = [bleed_timer 0]"
  by (simp add: CreateWound_unfold can_bleed_flag_def bleed_threshold_of_def config_def
      InflictWoundDamage_def Let_def creature_ops_def fresh_def deer_def bleed_started_def
      bleed_timer_def GetWoundIntensity_def)

text \<open>
  Claim C5, amended. A zone whose \<^verbatim>\<open>canBleed\<close> flag is not set rules a bleed out for
  every draw, and a threshold of 0 rules it out for every draw above 0:
  \<^verbatim>\<open>CreateWound\<close> then does what \<^verbatim>\<open>InflictWoundDamage\<close> does and no more.
\<close>

theorem CreateWound_no_bleed:
  assumes "\<not> can_bleed_flag ops game
               (m_ThisEntityAI (InflictWoundDamage ops damage_result zone_name ammo s)) zone_name
           \<or> (bleed_threshold_of game ammo = 0 \<and> 0 < chance)"
  shows "CreateWound ops game chance damage_result zone_name ammo s =
           InflictWoundDamage ops damage_result zone_name ammo s
         \<and> \<not> bleed_started (InflictWoundDamage ops damage_result zone_name ammo s)
               (CreateWound ops game chance damage_result zone_name ammo s)"
proof -
  from assms have "CreateWound ops game chance damage_result zone_name ammo s =
      InflictWoundDamage ops damage_result zone_name ammo s"
    by (auto simp add: CreateWound_unfold)
  then show ?thesis by (simp add: not_bleed_started_same)
qed

theorem CreateWound_no_bleed_witness:
  "bleed_threshold_of config ''Stone'' = 0 \<and> (0::real) < 1 / 1000
   \<and> CreateWound creature_ops config (1 / 1000) head_hit ''Head'' ''Stone'' fresh =
       InflictWoundDamage creature_ops head_hit ''Head'' ''Stone'' fresh
   \<and> CreateWound creature_ops config 0 head_hit ''Leg'' ''Arrow'' fresh =
       InflictWoundDamage creature_ops head_hit ''Leg'' ''Arrow'' fresh"
proof -
  have thr: "bleed_threshold_of config ''Stone'' = 0"
    by (simp add: bleed_threshold_of_def config_def)
  have leg: "\<not> can_bleed_flag creature_ops config
       (m_ThisEntityAI (InflictWoundDamage creature_ops head_hit ''Leg'' ''Arrow'' fresh)) ''Leg''"
    by (simp add: can_bleed_flag_def config_def InflictWoundDamage_def Let_def creature_ops_def
        fresh_def deer_def)
  show ?thesis
    using CreateWound_no_bleed [of creature_ops config head_hit "''Head''" "''Stone''" fresh "1 / 1000"]
      CreateWound_no_bleed [of creature_ops config head_hit "''Leg''" "''Arrow''" fresh 0]
      thr leg
    by simp
qed

section \<open>The bleed tick\<close>

lemma Bleed_alive:
  assumes "IsAlive ops (m_ThisEntityAI s)"
  shows "Bleed ops wound_intensity s =
           Inr (s\<lparr>m_ThisEntityAI :=
                  (if GetHealth ops '''' ''Blood'' (m_ThisEntityAI s) < PASS_OUT_AMOUT
                   then SetHealth ops '''' '''' 0
                          (DecreaseHealth ops '''' ''Blood'' (BASE_BLEED_RATE * wound_intensity)
                             (m_ThisEntityAI s))
                   else DecreaseHealth ops '''' ''Blood'' (BASE_BLEED_RATE * wound_intensity)
                          (m_ThisEntityAI s))\<rparr>)"
  using assms by (simp add: Bleed_def Let_def)

lemma Bleed_dead:
  assumes "\<not> IsAlive ops (m_ThisEntityAI s)"
  shows "Bleed ops wound_intensity s =
           (case m_BleedTimer s of
              None \<Rightarrow> Inl NullPointer
            | Some t \<Rightarrow> Inr (s\<lparr>timers := Timer_Stop t (timers s)\<rparr>))"
  using assms by (simp add: Bleed_def)

lemma Timer_Stop_length [simp]: "length (Timer_Stop t store) = length store"
  by (simp add: Timer_Stop_def)

lemma Timer_Stop_nth:
  "i < length store \<Longrightarrow>
     Timer_Stop t store ! i = (if i = t then (store ! i)\<lparr>TimerRunning := False\<rparr> else store ! i)"
  by (simp add: Timer_Stop_def nth_list_update)


lemma store_grows_refl: "store_grows store store"
  by (simp add: store_grows_def)

lemma store_grows_trans:
  "store_grows a b \<Longrightarrow> store_grows b c \<Longrightarrow> store_grows a c"
  by (auto simp add: store_grows_def)

lemma store_grows_Stop: "store_grows store (Timer_Stop t store)"
  by (simp add: store_grows_def Timer_Stop_nth)

lemma store_grows_append: "store_grows store (store @ added)"
  by (simp add: store_grows_def nth_append)

lemma Bleed_store_grows:
  assumes "Bleed ops w s = Inr s'"
  shows "store_grows (timers s) (timers s')"
proof (cases "IsAlive ops (m_ThisEntityAI s)")
  case True
  with assms show ?thesis
    by (auto simp add: Bleed_alive store_grows_refl)
next
  case False
  with assms show ?thesis
    by (auto simp add: Bleed_dead store_grows_Stop split: option.splits)
qed

lemma Tick_store_grows:
  assumes "Tick ops t s = Inr s'"
  shows "store_grows (timers s) (timers s')"
proof (cases "t < length (timers s) \<and> TimerRunning (timers s ! t)")
  case False
  with assms show ?thesis
    by (auto simp add: Tick_def store_grows_refl)
next
  case True
  show ?thesis
  proof (cases "TimerLoop (timers s ! t)")
    case True
    with \<open>t < length (timers s) \<and> TimerRunning (timers s ! t)\<close> assms
    have "Bleed ops (TimerParam (timers s ! t)) s = Inr s'"
      by (simp add: Tick_def Let_def)
    then show ?thesis by (rule Bleed_store_grows)
  next
    case False
    with \<open>t < length (timers s) \<and> TimerRunning (timers s ! t)\<close> assms
    have "Bleed ops (TimerParam (timers s ! t)) (s\<lparr>timers := Timer_Stop t (timers s)\<rparr>) = Inr s'"
      by (simp add: Tick_def Let_def)
    then have "store_grows (Timer_Stop t (timers s)) (timers s')"
      using Bleed_store_grows by fastforce
    with store_grows_Stop show ?thesis by (rule store_grows_trans)
  qed
qed

lemma CreateWound_store_grows:
  "store_grows (timers s) (timers (CreateWound ops game chance damage_result zone_name ammo s))"
  by (simp add: CreateWound_unfold InflictWoundDamage_frame store_grows_refl store_grows_append)

lemma step_store_grows:
  assumes "step ops game ev s = Inr s'"
  shows "store_grows (timers s) (timers s')"
proof (cases ev)
  case (EvCreateWound chance damage_result zone_name ammo)
  with assms show ?thesis using CreateWound_store_grows by auto
next
  case (EvInflictWoundDamage damage_result zone_name ammo)
  with assms show ?thesis by (auto simp add: InflictWoundDamage_frame store_grows_refl)
next
  case (EvTick t)
  with assms show ?thesis by (simp add: Tick_store_grows)
qed

lemma run_store_grows:
  "run ops game evs s = Inr s' \<Longrightarrow> store_grows (timers s) (timers s')"
proof (induction evs arbitrary: s)
  case Nil
  then show ?case by (simp add: store_grows_refl)
next
  case (Cons ev evs)
  then obtain s1 where first: "step ops game ev s = Inr s1" and rest: "run ops game evs s1 = Inr s'"
    by (auto split: sum.splits)
  from first have "store_grows (timers s) (timers s1)" by (rule step_store_grows)
  moreover from rest have "store_grows (timers s1) (timers s')" by (rule Cons.IH)
  ultimately show ?case by (rule store_grows_trans)
qed



text \<open>What the concrete states of the scenario hold.\<close>

lemma bleeding_simps:
  "m_BleedTimer bleeding = Some 0"
  "timers bleeding = [bleed_timer 1]"
  "creature_type (m_ThisEntityAI bleeding) = ''Deer''"
  "level (m_ThisEntityAI bleeding) ('''', ''Blood'') = 600"
  "level (m_ThisEntityAI bleeding) ('''', ''Health'') = 90"
  by (simp_all add: bleeding_def CreateWound_unfold can_bleed_flag_def bleed_threshold_of_def
      config_def InflictWoundDamage_def Let_def creature_ops_def health_type_def fresh_def
      deer_def head_hit_def GetDamage_def GetWoundIntensity_def)

lemma bled_once_simps:
  "m_BleedTimer bled_once = Some 0"
  "timers bled_once = [bleed_timer 1]"
  "level (m_ThisEntityAI bled_once) ('''', ''Blood'') = 350"
  "level (m_ThisEntityAI bled_once) ('''', ''Health'') = 90"
  by (simp_all add: bled_once_def bleeding_simps creature_ops_def health_type_def)

lemma dying_simps:
  "m_BleedTimer dying = Some 0"
  "timers dying = [bleed_timer 1]"
  "level (m_ThisEntityAI dying) ('''', ''Blood'') = 100"
  "level (m_ThisEntityAI dying) ('''', ''Health'') = 0"
  by (simp_all add: dying_def bled_once_simps creature_ops_def health_type_def)

lemma stopped_simps:
  "m_BleedTimer stopped = Some 0"
  "timers stopped = [(bleed_timer 1)\<lparr>TimerRunning := False\<rparr>]"
  "m_ThisEntityAI stopped = m_ThisEntityAI dying"
  by (simp_all add: stopped_def dying_simps Timer_Stop_def)

lemma alive_simps:
  "IsAlive creature_ops (m_ThisEntityAI bleeding)"
  "IsAlive creature_ops (m_ThisEntityAI bled_once)"
  "\<not> IsAlive creature_ops (m_ThisEntityAI dying)"
  "\<not> IsAlive creature_ops (m_ThisEntityAI stopped)"
  "GetHealth creature_ops '''' ''Blood'' (m_ThisEntityAI bleeding) = 600"
  "GetHealth creature_ops '''' ''Blood'' (m_ThisEntityAI bled_once) = 350"
  by (simp_all add: creature_ops_def health_type_def bleeding_simps bled_once_simps dying_simps
      stopped_simps)

text \<open>
  Claim C6. On a tick that finds the creature alive, \<^verbatim>\<open>Bleed\<close> decreases the global
  \<^verbatim>\<open>Blood\<close> by \<^verbatim>\<open>BASE_BLEED_RATE * wound_intensity\<close>, once, and the only other thing it
  may do is set the health to zero afterwards; \<^verbatim>\<open>BASE_BLEED_RATE\<close> is 250, so an
  intensity of 1 drains 250. The intensity of a tick is the one fixed when the bleed
  started: whatever happened since \<^verbatim>\<open>CreateWound\<close> started the bleed, a tick of its
  timer calls \<^verbatim>\<open>Bleed\<close> with \<^verbatim>\<open>GetWoundIntensity\<close> of the threshold read then.
\<close>

theorem Bleed_drains_blood:
  assumes alive: "IsAlive ops (m_ThisEntityAI s)"
  shows "BASE_BLEED_RATE = 250
         \<and> BASE_BLEED_RATE * 1 = 250
         \<and> (Bleed ops w s =
              Inr (s\<lparr>m_ThisEntityAI :=
                     DecreaseHealth ops '''' ''Blood'' (BASE_BLEED_RATE * w) (m_ThisEntityAI s)\<rparr>)
            \<or> Bleed ops w s =
                Inr (s\<lparr>m_ThisEntityAI :=
                       SetHealth ops '''' '''' 0
                         (DecreaseHealth ops '''' ''Blood'' (BASE_BLEED_RATE * w)
                            (m_ThisEntityAI s))\<rparr>))
         \<and> (can_bleed_flag ops game
               (m_ThisEntityAI (InflictWoundDamage ops damage_result zone_name ammo s0)) zone_name
             \<and> chance \<le> bleed_threshold_of game ammo
             \<and> run ops game evs (CreateWound ops game chance damage_result zone_name ammo s0) = Inr s
             \<and> TimerRunning (timers s ! length (timers s0))
            \<longrightarrow> Tick ops (length (timers s0)) s =
                  Bleed ops (GetWoundIntensity (bleed_threshold_of game ammo)) s)"
proof -
  have rate: "BASE_BLEED_RATE = 250"
    by (simp add: BASE_BLEED_RATE_def)
  have drain: "Bleed ops w s =
              Inr (s\<lparr>m_ThisEntityAI :=
                     DecreaseHealth ops '''' ''Blood'' (BASE_BLEED_RATE * w) (m_ThisEntityAI s)\<rparr>)
            \<or> Bleed ops w s =
                Inr (s\<lparr>m_ThisEntityAI :=
                       SetHealth ops '''' '''' 0
                         (DecreaseHealth ops '''' ''Blood'' (BASE_BLEED_RATE * w)
                            (m_ThisEntityAI s))\<rparr>)"
    using alive by (simp add: Bleed_alive)
  have tick: "Tick ops (length (timers s0)) s =
                Bleed ops (GetWoundIntensity (bleed_threshold_of game ammo)) s"
    if go: "can_bleed_flag ops game
              (m_ThisEntityAI (InflictWoundDamage ops damage_result zone_name ammo s0)) zone_name"
          "chance \<le> bleed_threshold_of game ammo"
      and later: "run ops game evs (CreateWound ops game chance damage_result zone_name ammo s0) = Inr s"
      and running: "TimerRunning (timers s ! length (timers s0))"
  proof -
    let ?start = "CreateWound ops game chance damage_result zone_name ammo s0"
    let ?t = "length (timers s0)"
    from go have store: "timers ?start =
        timers s0 @ [bleed_timer (GetWoundIntensity (bleed_threshold_of game ammo))]"
      by (simp add: CreateWound_unfold)
    then have t: "?t < length (timers ?start)"
      and start: "timers ?start ! ?t = bleed_timer (GetWoundIntensity (bleed_threshold_of game ammo))"
      by simp_all
    from later have "store_grows (timers ?start) (timers s)"
      by (rule run_store_grows)
    with t start have "?t < length (timers s)"
      and "TimerParam (timers s ! ?t) = GetWoundIntensity (bleed_threshold_of game ammo)"
      and "TimerLoop (timers s ! ?t)"
      by (auto simp add: store_grows_def bleed_timer_def)
    with running show ?thesis
      by (simp add: Tick_def Let_def)
  qed
  from rate drain tick show ?thesis by simp
qed

theorem Bleed_drains_blood_witness:
  "IsAlive creature_ops (m_ThisEntityAI bleeding)
   \<and> run creature_ops config [] bleeding = Inr bleeding
   \<and> bleeding = CreateWound creature_ops config (3 / 10) head_hit ''Head'' ''Arrow'' fresh
   \<and> TimerRunning (timers bleeding ! 0)
   \<and> Tick creature_ops 0 bleeding = Inr bled_once
   \<and> level (m_ThisEntityAI bled_once) ('''', ''Blood'') =
       level (m_ThisEntityAI bleeding) ('''', ''Blood'') - 250"
proof -
  have go: "can_bleed_flag creature_ops config
       (m_ThisEntityAI (InflictWoundDamage creature_ops head_hit ''Head'' ''Arrow'' fresh)) ''Head''"
    "bleed_threshold_of config ''Arrow'' = 1 / 2"
    by (simp_all add: can_bleed_flag_def bleed_threshold_of_def config_def InflictWoundDamage_def
        Let_def creature_ops_def fresh_def deer_def)
  have running: "TimerRunning (timers bleeding ! 0)"
    by (simp add: bleeding_simps bleed_timer_def)
  have len: "length (timers fresh) = 0"
    by (simp add: fresh_def)
  have start: "CreateWound creature_ops config (3 / 10) head_hit ''Head'' ''Arrow'' fresh = bleeding"
    by (simp add: bleeding_def)
  have "Tick creature_ops (length (timers fresh)) bleeding =
          Bleed creature_ops (GetWoundIntensity (bleed_threshold_of config ''Arrow'')) bleeding"
    using Bleed_drains_blood [of creature_ops bleeding 1 config head_hit "''Head''" "''Arrow''" fresh
        "3 / 10" "[]"] alive_simps(1) go(1) running
    by (simp add: go(2) start len)
  then have "Tick creature_ops 0 bleeding = Bleed creature_ops 1 bleeding"
    by (simp add: go(2) GetWoundIntensity_def len)
  also have "\<dots> = Inr bled_once"
    by (simp add: Bleed_alive alive_simps BASE_BLEED_RATE_def PASS_OUT_AMOUT_def bled_once_def)
  finally show ?thesis
    using running by (simp add: alive_simps bleeding_def [symmetric] bleeding_simps bled_once_simps)
qed

text \<open>
  Claim C7. On a tick that finds the creature alive, the pass-out check is made on the
  global \<^verbatim>\<open>Blood\<close> level of the creature as the tick found it, before the decrease: when
  that level is below \<^verbatim>\<open>PASS_OUT_AMOUT\<close>, which is 500, the decrease is applied and then
  the health is set to zero, on the same tick; when it is not, only the decrease is
  applied, whatever level the decrease leaves.
\<close>

theorem Bleed_pass_out_before_decrease:
  assumes alive: "IsAlive ops (m_ThisEntityAI s)"
  shows "PASS_OUT_AMOUT = 500
         \<and> (GetHealth ops '''' ''Blood'' (m_ThisEntityAI s) < PASS_OUT_AMOUT \<longrightarrow>
              Bleed ops w s =
                Inr (s\<lparr>m_ThisEntityAI :=
                       SetHealth ops '''' '''' 0
                         (DecreaseHealth ops '''' ''Blood'' (BASE_BLEED_RATE * w)
                            (m_ThisEntityAI s))\<rparr>))
         \<and> (\<not> GetHealth ops '''' ''Blood'' (m_ThisEntityAI s) < PASS_OUT_AMOUT \<longrightarrow>
              Bleed ops w s =
                Inr (s\<lparr>m_ThisEntityAI :=
                       DecreaseHealth ops '''' ''Blood'' (BASE_BLEED_RATE * w)
                         (m_ThisEntityAI s)\<rparr>))"
  using alive by (simp add: Bleed_alive PASS_OUT_AMOUT_def)

theorem Bleed_pass_out_before_decrease_witness:
  "IsAlive creature_ops (m_ThisEntityAI bleeding)
   \<and> \<not> GetHealth creature_ops '''' ''Blood'' (m_ThisEntityAI bleeding) < PASS_OUT_AMOUT
   \<and> Bleed creature_ops 1 bleeding = Inr bled_once
   \<and> GetHealth creature_ops '''' ''Blood'' (m_ThisEntityAI bled_once) = 350
   \<and> IsAlive creature_ops (m_ThisEntityAI bled_once)
   \<and> GetHealth creature_ops '''' ''Blood'' (m_ThisEntityAI bled_once) < PASS_OUT_AMOUT
   \<and> Bleed creature_ops 1 bled_once = Inr dying
   \<and> \<not> IsAlive creature_ops (m_ThisEntityAI dying)
   \<and> level (m_ThisEntityAI dying) ('''', ''Blood'') = 100"
proof -
  have first: "Bleed creature_ops 1 bleeding = Inr bled_once"
    using Bleed_pass_out_before_decrease [of creature_ops bleeding 1] alive_simps
    by (simp add: bled_once_def BASE_BLEED_RATE_def)
  have second: "Bleed creature_ops 1 bled_once = Inr dying"
    using Bleed_pass_out_before_decrease [of creature_ops bled_once 1] alive_simps
    by (simp add: dying_def BASE_BLEED_RATE_def)
  show ?thesis
    using first second by (simp add: alive_simps dying_simps PASS_OUT_AMOUT_def)
qed

section \<open>The end of a bleed\<close>

text \<open>
  From a component whose slot refers to the timer allocated last, no sequence of events
  ends in a script error: a tick only fires for a timer that exists, and then the slot is
  not null when \<^verbatim>\<open>Bleed\<close> stops the timer behind it.
\<close>

lemma slot_ok_CreateWound:
  "slot_ok s \<Longrightarrow> slot_ok (CreateWound ops game chance damage_result zone_name ammo s)"
  by (simp add: slot_ok_def CreateWound_unfold InflictWoundDamage_frame)

lemma slot_ok_InflictWoundDamage:
  "slot_ok s \<Longrightarrow> slot_ok (InflictWoundDamage ops damage_result zone_name ammo s)"
  by (simp add: slot_ok_def InflictWoundDamage_frame)

lemma slot_ok_Bleed:
  assumes "slot_ok s" and "timers s \<noteq> []"
  shows "\<exists>s'. Bleed ops w s = Inr s' \<and> slot_ok s'"
proof (cases "IsAlive ops (m_ThisEntityAI s)")
  case True
  with assms(1) show ?thesis by (simp add: Bleed_alive slot_ok_def)
next
  case False
  with assms show ?thesis by (auto simp add: Bleed_dead slot_ok_def)
qed

lemma slot_ok_Tick:
  assumes "slot_ok s"
  shows "\<exists>s'. Tick ops t s = Inr s' \<and> slot_ok s'"
proof (cases "t < length (timers s) \<and> TimerRunning (timers s ! t)")
  case False
  with assms show ?thesis by (auto simp add: Tick_def)
next
  case True
  then have nonempty: "timers s \<noteq> []" by auto
  show ?thesis
  proof (cases "TimerLoop (timers s ! t)")
    case True
    with \<open>t < length (timers s) \<and> TimerRunning (timers s ! t)\<close>
    have "Tick ops t s = Bleed ops (TimerParam (timers s ! t)) s"
      by (simp add: Tick_def Let_def)
    with slot_ok_Bleed [OF assms nonempty] show ?thesis by simp
  next
    case False
    let ?s1 = "s\<lparr>timers := Timer_Stop t (timers s)\<rparr>"
    from False \<open>t < length (timers s) \<and> TimerRunning (timers s ! t)\<close>
    have tick: "Tick ops t s = Bleed ops (TimerParam (timers s ! t)) ?s1"
      by (simp add: Tick_def Let_def)
    from assms nonempty have "slot_ok ?s1" and "timers ?s1 \<noteq> []"
      by (auto simp add: slot_ok_def Timer_Stop_def)
    then have "\<exists>s'. Bleed ops (TimerParam (timers s ! t)) ?s1 = Inr s' \<and> slot_ok s'"
      by (rule slot_ok_Bleed)
    with tick show ?thesis by simp
  qed
qed

lemma slot_ok_step:
  assumes "slot_ok s"
  shows "\<exists>s'. step ops game ev s = Inr s' \<and> slot_ok s'"
proof (cases ev)
  case (EvCreateWound chance damage_result zone_name ammo)
  with assms show ?thesis by (simp add: slot_ok_CreateWound)
next
  case (EvInflictWoundDamage damage_result zone_name ammo)
  with assms show ?thesis by (simp add: slot_ok_InflictWoundDamage)
next
  case (EvTick t)
  with assms show ?thesis by (simp add: slot_ok_Tick)
qed

lemma run_total:
  "slot_ok s \<Longrightarrow> \<exists>s'. run ops game evs s = Inr s' \<and> slot_ok s'"
proof (induction evs arbitrary: s)
  case Nil
  then show ?case by simp
next
  case (Cons ev evs)
  from slot_ok_step [OF Cons.prems] obtain s1
    where first: "step ops game ev s = Inr s1" and ok: "slot_ok s1"
    by blast
  from Cons.IH [OF ok] first show ?case by simp
qed







text \<open>
  The scenario of the spec, section 8: a wound of intensity 1 on a creature with blood 600.
  The first tick leaves blood 350 and the creature alive, the second finds 350, kills
  and leaves blood 100, the third stops the timer.
\<close>

lemma scenario:
  "run creature_ops config
     [EvCreateWound (3 / 10) head_hit ''Head'' ''Arrow'', EvTick 0, EvTick 0, EvTick 0] fresh =
     Inr stopped"
proof -
  have t1: "Tick creature_ops 0 bleeding = Inr bled_once"
    by (simp add: Tick_def Let_def bleeding_simps bleed_timer_def Bleed_alive alive_simps
        BASE_BLEED_RATE_def PASS_OUT_AMOUT_def bled_once_def)
  have t2: "Tick creature_ops 0 bled_once = Inr dying"
    by (simp add: Tick_def Let_def bled_once_simps bleed_timer_def Bleed_alive alive_simps
        BASE_BLEED_RATE_def PASS_OUT_AMOUT_def dying_def)
  have t3: "Tick creature_ops 0 dying = Inr stopped"
    by (simp add: Tick_def Let_def dying_simps bleed_timer_def Bleed_dead alive_simps stopped_def)
  show ?thesis
    by (simp add: bleeding_def [symmetric] t1 t2 t3)
qed

section \<open>The single timer slot\<close>

text \<open>
  Claim C10. The component has one slot, \<^verbatim>\<open>m_BleedTimer\<close>, which holds one reference or
  none. When \<^verbatim>\<open>CreateWound\<close> starts a bleed while the slot refers to a running timer,
  the slot is overwritten with the reference to the new timer, and \<^verbatim>\<open>CreateWound\<close>
  makes no call on the old timer: its object in the store is as it was, still running.
\<close>

theorem CreateWound_overwrites_slot:
  assumes "m_BleedTimer s = Some old" and "old < length (timers s)"
    and "TimerRunning (timers s ! old)"
    and "can_bleed_flag ops game
           (m_ThisEntityAI (InflictWoundDamage ops damage_result zone_name ammo s)) zone_name"
    and "chance \<le> bleed_threshold_of game ammo"
  shows "m_BleedTimer (CreateWound ops game chance damage_result zone_name ammo s) =
           Some (length (timers s))
         \<and> length (timers s) \<noteq> old
         \<and> timers (CreateWound ops game chance damage_result zone_name ammo s) ! length (timers s) =
             bleed_timer (GetWoundIntensity (bleed_threshold_of game ammo))
         \<and> timers (CreateWound ops game chance damage_result zone_name ammo s) ! old = timers s ! old
         \<and> TimerRunning (timers (CreateWound ops game chance damage_result zone_name ammo s) ! old)"
  using assms by (simp add: CreateWound_unfold nth_append)

theorem CreateWound_overwrites_slot_witness:
  "m_BleedTimer bleeding = Some 0
   \<and> 0 < length (timers bleeding)
   \<and> TimerRunning (timers bleeding ! 0)
   \<and> (1 / 10 :: real) \<le> bleed_threshold_of config ''Arrow''
   \<and> m_BleedTimer (CreateWound creature_ops config (1 / 10) head_hit ''Head'' ''Arrow'' bleeding) =
       Some 1
   \<and> TimerRunning
       (timers (CreateWound creature_ops config (1 / 10) head_hit ''Head'' ''Arrow'' bleeding) ! 0)
   \<and> TimerRunning
       (timers (CreateWound creature_ops config (1 / 10) head_hit ''Head'' ''Arrow'' bleeding) ! 1)"
proof -
  have hyps: "m_BleedTimer bleeding = Some 0" "0 < length (timers bleeding)"
    "TimerRunning (timers bleeding ! 0)"
    by (simp_all add: bleeding_simps bleed_timer_def)
  have flag: "can_bleed_flag creature_ops config
       (m_ThisEntityAI (InflictWoundDamage creature_ops head_hit ''Head'' ''Arrow'' bleeding)) ''Head''"
    by (simp add: can_bleed_flag_def config_def InflictWoundDamage_def Let_def creature_ops_def
        bleeding_simps)
  have thr: "bleed_threshold_of config ''Arrow'' = 1 / 2"
    by (simp add: bleed_threshold_of_def config_def)
  then have draw: "(1 / 10 :: real) \<le> bleed_threshold_of config ''Arrow''"
    by simp
  from CreateWound_overwrites_slot [OF hyps flag draw] hyps draw show ?thesis
    by (simp add: bleeding_simps bleed_timer_def)
qed

end
